theory Spec2Isabelle
  imports Complex_Main "HOL-Library.Word"
begin

section \<open>The merge server: data and the outside world\<close>

text \<open>
  \<^verbatim>\<open>server.js\<close> downloads an audio and a video file, merges them with ffmpeg and
  uploads the result to Dropbox. Everything the handler does to the outside world
  (HTTP calls, the ffmpeg run, file deletion) is recorded, in order, in a trace; the
  answers of the outside world come from an environment \<open>env\<close>, which every theorem
  leaves arbitrary. A thrown JavaScript error is the value \<open>Inl message\<close>.

  Left out: console logging, the timeout and size limits passed to axios, and the
  \<^verbatim>\<open>Content-Type\<close> headers. The fields of a request have the types the handler's
  comment gives them, each optional (\<open>None\<close> is \<^verbatim>\<open>undefined\<close>; a request without a body
  has every field \<open>None\<close>).
\<close>

type_synonym byte = "8 word"

datatype json = JNull | JBool bool | JNum int | JStr string | JObj "(string \<times> json) list"

text \<open>\<^verbatim>\<open>data.k\<close> for a string-valued field of a reply; \<open>None\<close> is \<^verbatim>\<open>undefined\<close>.\<close>

fun str_field :: "string \<Rightarrow> json \<Rightarrow> string option" where
  "str_field k (JObj kvs) = (case map_of kvs k of Some (JStr s) \<Rightarrow> Some s | _ \<Rightarrow> None)"
| "str_field k _ = None"

text \<open>\<^verbatim>\<open>{ path, mode, autorename, mute }\<close> and \<^verbatim>\<open>{ session_id, offset }\<close>.\<close>

datatype commit_info = CommitInfo string string bool bool

datatype cursor = Cursor "string option" nat

text \<open>The \<^verbatim>\<open>Dropbox-API-Arg\<close> header of the four content endpoints.\<close>

datatype api_arg =
    UploadArg commit_info
  | StartArg bool
  | AppendArg cursor bool
  | FinishArg cursor commit_info

datatype payload = Json json | Bytes "byte list" | Text string

text \<open>The calls of the fluent-ffmpeg command builder, in the order the handler makes them.
  \<open>StringOf x\<close> stands for JavaScript's \<^verbatim>\<open>String(x)\<close>.\<close>

datatype token = Lit string | StringOf real

datatype ff_call =
    Input string
  | InputOptions "token list"
  | OutputOptions "token list"
  | VideoCodec string
  | AudioCodec string
  | AudioBitrate string

text \<open>An effect on the outside world: \<^verbatim>\<open>axios.post(url, data, {headers})\<close> with its
  \<^verbatim>\<open>Authorization\<close> and \<^verbatim>\<open>Dropbox-API-Arg\<close> headers, \<^verbatim>\<open>axios.get(url)\<close>,
  \<^verbatim>\<open>cmd.save(outTmp)\<close> and \<^verbatim>\<open>fs.unlinkSync(f)\<close>.\<close>

datatype event =
    AxiosPost string string "api_arg option" payload
  | AxiosGet string
  | Save "ff_call list" string
  | UnlinkSync string

text \<open>A parsed \<^verbatim>\<open>URL\<close> object: the two parts the code reads, and the rest.\<close>

record url =
  hostname :: string
  searchParams :: "(string \<times> string) list"
  other :: string

text \<open>What ffmpeg reports: the \<^verbatim>\<open>end\<close> event with the file it wrote, or the
  \<^verbatim>\<open>error\<close> event with its message and whatever output it left behind.\<close>

datatype ffmpeg_result = End "byte list" | Error string "byte list option"

record world =
  trace :: "event list"
  fs :: "string \<rightharpoonup> byte list"
  uuids :: nat

record env =
  DROPBOX_TOKEN :: "string option"
  axios_post :: "event list \<Rightarrow> event \<Rightarrow> string + json"
  axios_get :: "event list \<Rightarrow> string \<Rightarrow> string + (byte list \<times> string option)"
  ffmpeg :: "(string \<rightharpoonup> byte list) \<Rightarrow> ff_call list \<Rightarrow> ffmpeg_result"
  randomUUID :: "nat \<Rightarrow> string"
  tmpdir :: string
  path_join :: "string \<Rightarrow> string \<Rightarrow> string"
  new_URL :: "string \<Rightarrow> url option"
  toString :: "url \<Rightarrow> string"
  Date_now :: "event list \<Rightarrow> int"

text \<open>JavaScript truthiness of a value that is a string or \<^verbatim>\<open>undefined\<close>.\<close>

fun truthy :: "string option \<Rightarrow> bool" where
  "truthy None = False"
| "truthy (Some s) = (s \<noteq> [])"

text \<open>The template \<^verbatim>\<open>`Bearer ${DROPBOX_TOKEN}`\<close>.\<close>

definition bearer :: "env \<Rightarrow> string" where
  "bearer env = ''Bearer '' @ (case DROPBOX_TOKEN env of None \<Rightarrow> ''undefined'' | Some t \<Rightarrow> t)"

definition did :: "event \<Rightarrow> world \<Rightarrow> world" where
  "did e w = w\<lparr>trace := trace w @ [e]\<rparr>"

section \<open>dropboxUpload\<close>

definition CHUNK :: nat where
  "CHUNK = 8 * 1024 * 1024"

text \<open>\<^verbatim>\<open>fs.readSync(fd, buffer, 0, length, position)\<close> on a file with the given content:
  the number it returns (the count of bytes read) and the buffer afterwards.\<close>

definition readSync :: "byte list \<Rightarrow> byte list \<Rightarrow> nat \<Rightarrow> nat \<Rightarrow> nat \<times> byte list" where
  "readSync content buffer len position =
     (let got = take len (drop position content)
      in (length got, got @ drop (length got) buffer))"

definition append_v2 :: "env \<Rightarrow> string option \<Rightarrow> nat \<Rightarrow> byte list \<Rightarrow> event" where
  "append_v2 env sessionId offs body =
     AxiosPost ''https://content.dropboxapi.com/2/files/upload_session/append_v2'' (bearer env)
       (Some (AppendArg (Cursor sessionId offs) False)) (Bytes body)"

definition session_finish :: "env \<Rightarrow> string option \<Rightarrow> nat \<Rightarrow> string \<Rightarrow> byte list \<Rightarrow> event" where
  "session_finish env sessionId offs dropboxDestPath body =
     AxiosPost ''https://content.dropboxapi.com/2/files/upload_session/finish'' (bearer env)
       (Some (FinishArg (Cursor sessionId offs) (CommitInfo dropboxDestPath ''overwrite'' False False)))
       (Bytes body)"

definition session_start :: "env \<Rightarrow> event" where
  "session_start env =
     AxiosPost ''https://content.dropboxapi.com/2/files/upload_session/start'' (bearer env)
       (Some (StartArg False)) (Text '''')"

definition files_upload :: "env \<Rightarrow> string \<Rightarrow> byte list \<Rightarrow> event" where
  "files_upload env dropboxDestPath content =
     AxiosPost ''https://content.dropboxapi.com/2/files/upload'' (bearer env)
       (Some (UploadArg (CommitInfo dropboxDestPath ''overwrite'' False False))) (Bytes content)"

text \<open>A JavaScript number that is a natural number or \<^verbatim>\<open>NaN\<close>, with the three
  operations the loop applies to \<^verbatim>\<open>offset\<close>. The second operand of \<open>plus_js\<close> may be
  \<^verbatim>\<open>undefined\<close> (\<open>None\<close>), which makes the sum \<^verbatim>\<open>NaN\<close>; every comparison with
  \<^verbatim>\<open>NaN\<close> is false.\<close>

datatype number = Num nat | NaN

fun plus_js :: "number \<Rightarrow> nat option \<Rightarrow> number" where
  "plus_js (Num a) (Some b) = Num (a + b)"
| "plus_js x y = NaN"

fun ge_js :: "number \<Rightarrow> nat \<Rightarrow> bool" where
  "ge_js (Num a) n = (a \<ge> n)"
| "ge_js NaN n = False"

fun lt_js :: "number \<Rightarrow> nat \<Rightarrow> bool" where
  "lt_js (Num a) n = (a < n)"
| "lt_js NaN n = False"

text \<open>\<^verbatim>\<open>const { bytesRead } = n\<close> for a number \<open>n\<close>: \<^verbatim>\<open>fs.readSync\<close> returns the count
  itself, a number has no property \<^verbatim>\<open>bytesRead\<close>, and the variable is
  \<^verbatim>\<open>undefined\<close>.\<close>

definition property_bytesRead :: "nat \<Rightarrow> nat option" where
  "property_bytesRead n = None"

text \<open>\<^verbatim>\<open>buffer.subarray(start, end)\<close>; an \<^verbatim>\<open>undefined\<close> end is the end of the buffer.\<close>

definition subarray :: "byte list \<Rightarrow> nat \<Rightarrow> nat option \<Rightarrow> byte list" where
  "subarray buffer first end =
     (case end of None \<Rightarrow> drop first buffer | Some e \<Rightarrow> take (e - first) (drop first buffer))"

text \<open>The \<^verbatim>\<open>while (offset < size)\<close> loop. \<open>content\<close> is the file behind \<^verbatim>\<open>fd\<close>;
  \<^verbatim>\<open>size\<close> is its length, as \<^verbatim>\<open>statSync\<close> gave it. Inside the loop the offset is a
  number below the size, here \<open>offs\<close>.\<close>

function upload_loop ::
  "env \<Rightarrow> string option \<Rightarrow> string \<Rightarrow> byte list \<Rightarrow> number \<Rightarrow> byte list \<Rightarrow> world \<Rightarrow> (string + unit) \<times> world" where
  "upload_loop env sessionId dropboxDestPath content offset buffer w =
     (if lt_js offset (length content) then
        (case offset of
           NaN \<Rightarrow> (Inr (), w)
         | Num offs \<Rightarrow>
            (let toRead = min CHUNK (length content - offs) in
             case readSync content buffer toRead offs of (count, buffer') \<Rightarrow>
               (let bytesRead = property_bytesRead count;
                    isLast = ge_js (plus_js offset bytesRead) (length content);
                    body = subarray buffer' 0 bytesRead;
                    call = (if \<not> isLast then append_v2 env sessionId offs body
                            else session_finish env sessionId offs dropboxDestPath body)
                in case axios_post env (trace w) call of
                     Inl e \<Rightarrow> (Inl e, did call w)
                   | Inr r \<Rightarrow> upload_loop env sessionId dropboxDestPath content
                              (plus_js offset bytesRead) buffer' (did call w))))
      else (Inr (), w))"
  by pat_completeness auto
termination
  by (relation "measure (\<lambda>(env, sessionId, dropboxDestPath, content, offset, buffer, w).
                   case offset of NaN \<Rightarrow> 0 | Num offs \<Rightarrow> Suc (length content - offs))")
     (auto simp: property_bytesRead_def)

declare upload_loop.simps [simp del]

definition dropboxUpload :: "env \<Rightarrow> string \<Rightarrow> string \<Rightarrow> world \<Rightarrow> (string + json) \<times> world" where
  "dropboxUpload env localPath dropboxDestPath w =
     (case fs w localPath of
        None \<Rightarrow>
          (Inl (''ENOENT: no such file or directory, stat '' @ [CHR 0x27] @ localPath @ [CHR 0x27]), w)
      | Some content \<Rightarrow>
          (if length content \<le> 150 * 1024 * 1024 then
             (case axios_post env (trace w) (files_upload env dropboxDestPath content) of
                Inl e \<Rightarrow> (Inl e, did (files_upload env dropboxDestPath content) w)
              | Inr data \<Rightarrow> (Inr data, did (files_upload env dropboxDestPath content) w))
           else
             (case axios_post env (trace w) (session_start env) of
                Inl e \<Rightarrow> (Inl e, did (session_start env) w)
              | Inr data \<Rightarrow>
                  (let sessionId = str_field ''session_id'' data in
                   case upload_loop env sessionId dropboxDestPath content (Num 0) (replicate CHUNK 0)
                          (did (session_start env) w) of
                     (Inl e, w') \<Rightarrow> (Inl e, w')
                   | (Inr u, w') \<Rightarrow>
                       (Inr (JObj [(''path_display'', JStr dropboxDestPath),
                                   (''size'', JNum (int (length content)))]), w')))))"

section \<open>Downloading the inputs\<close>

text \<open>\<^verbatim>\<open>path.join(os.tmpdir(), `${randomUUID()}${suffix}`)\<close>; the world counts the
  identifiers drawn so far.\<close>

definition tmpFile :: "env \<Rightarrow> string \<Rightarrow> world \<Rightarrow> string \<times> world" where
  "tmpFile env suffix w =
     (path_join env (tmpdir env) (randomUUID env (uuids w) @ suffix),
      w\<lparr>uuids := Suc (uuids w)\<rparr>)"

definition endsWith :: "string \<Rightarrow> string \<Rightarrow> bool" where
  "endsWith s t = (length t \<le> length s \<and> drop (length s - length t) s = t)"

definition isDropboxSharedLink :: "env \<Rightarrow> string \<Rightarrow> bool" where
  "isDropboxSharedLink env link =
     (case new_URL env link of
        None \<Rightarrow> False
      | Some u \<Rightarrow> endsWith (hostname u) ''dropbox.com'' \<or> endsWith (hostname u) ''db.tt'')"

text \<open>\<^verbatim>\<open>URLSearchParams\<close>: \<^verbatim>\<open>has\<close>, \<^verbatim>\<open>set\<close> (the first pair of that name takes the
  value, the others go) and \<^verbatim>\<open>append\<close>.\<close>

definition searchParams_has :: "(string \<times> string) list \<Rightarrow> string \<Rightarrow> bool" where
  "searchParams_has ps name = (name \<in> set (map fst ps))"

fun searchParams_set :: "(string \<times> string) list \<Rightarrow> string \<Rightarrow> string \<Rightarrow> (string \<times> string) list" where
  "searchParams_set [] name v = [(name, v)]"
| "searchParams_set ((k, x) # ps) name v =
     (if k = name then (name, v) # filter (\<lambda>p. fst p \<noteq> name) ps
      else (k, x) # searchParams_set ps name v)"

definition searchParams_append :: "(string \<times> string) list \<Rightarrow> string \<Rightarrow> string \<Rightarrow> (string \<times> string) list" where
  "searchParams_append ps name v = ps @ [(name, v)]"

definition toDirectDownload :: "env \<Rightarrow> string \<Rightarrow> string" where
  "toDirectDownload env link =
     (case new_URL env link of
        None \<Rightarrow> link
      | Some u \<Rightarrow>
          (if searchParams_has (searchParams u) ''dl''
           then toString env (u\<lparr>searchParams := searchParams_set (searchParams u) ''dl'' ''1''\<rparr>)
           else toString env (u\<lparr>searchParams := searchParams_append (searchParams u) ''dl'' ''1''\<rparr>)))"

definition dropboxTemporaryLinkByPath :: "env \<Rightarrow> string \<Rightarrow> world \<Rightarrow> (string + string option) \<times> world" where
  "dropboxTemporaryLinkByPath env dbxPath w =
     (if \<not> truthy (DROPBOX_TOKEN env) then (Inl ''Missing DROPBOX_ACCESS_TOKEN env var'', w)
      else
        (let call = AxiosPost ''https://api.dropboxapi.com/2/files/get_temporary_link'' (bearer env)
                      None (Json (JObj [(''path'', JStr dbxPath)]))
         in case axios_post env (trace w) call of
              Inl e \<Rightarrow> (Inl e, did call w)
            | Inr data \<Rightarrow> (Inr (str_field ''link'' data), did call w)))"

text \<open>\<^verbatim>\<open>axios.get\<close> answers with a stream: the bytes it delivers and, when the transport
  breaks, the error after them; \<^verbatim>\<open>pipeline\<close> writes what arrives to \<^verbatim>\<open>outFile\<close>.\<close>

definition downloadToTemp ::
  "env \<Rightarrow> string option \<Rightarrow> string option \<Rightarrow> string \<Rightarrow> world \<Rightarrow> (string + string) \<times> world" where
  "downloadToTemp env link dropboxPath extFallback w =
     (case (if \<not> truthy link \<and> truthy dropboxPath
            then dropboxTemporaryLinkByPath env (case dropboxPath of Some p \<Rightarrow> p | None \<Rightarrow> []) w
            else (Inr link, w)) of
        (Inl e, w1) \<Rightarrow> (Inl e, w1)
      | (Inr resolved, w1) \<Rightarrow>
          (case (if truthy resolved then resolved else None) of
             None \<Rightarrow> (Inl ''Provide either url or dropboxPath'', w1)
           | Some given \<Rightarrow>
               (let directUrl = (if isDropboxSharedLink env given then toDirectDownload env given else given)
                in case tmpFile env extFallback w1 of (outFile, w2) \<Rightarrow>
                  (case axios_get env (trace w2) directUrl of
                     Inl e \<Rightarrow> (Inl e, did (AxiosGet directUrl) w2)
                   | Inr (received, broke) \<Rightarrow>
                       (let w3 = (did (AxiosGet directUrl) w2)\<lparr>fs := (fs w2)(outFile \<mapsto> received)\<rparr>
                        in case broke of None \<Rightarrow> (Inr outFile, w3) | Some e \<Rightarrow> (Inl e, w3))))))"

section \<open>The POST /merge handler\<close>

record merge_request =
  audio_url :: "string option"
  video_url :: "string option"
  audio_path :: "string option"
  video_path :: "string option"
  out_path :: "string option"
  audio_offset_sec :: "real option"
  trim_to_shortest :: "bool option"
  reencode_video :: "bool option"
  audio_bitrate :: "string option"

text \<open>\<^verbatim>\<open>res.status(n).json(body)\<close>.\<close>

datatype response = Response nat json

definition error_body :: "string \<Rightarrow> json" where
  "error_body msg = JObj [(''error'', JStr msg)]"

text \<open>The builder calls between \<^verbatim>\<open>ffmpegLib()\<close> and \<^verbatim>\<open>.save(outTmp)\<close>.\<close>

definition ffmpeg_command :: "string \<Rightarrow> string \<Rightarrow> real \<Rightarrow> bool \<Rightarrow> bool \<Rightarrow> string \<Rightarrow> ff_call list" where
  "ffmpeg_command videoTmp audioTmp offset_sec trim reencode bitrate =
     [Input videoTmp, Input audioTmp]
     @ (if offset_sec \<noteq> 0 then
          (if offset_sec > 0
           then [InputOptions [Lit ''-itsoffset'', StringOf offset_sec], Input audioTmp]
           else [InputOptions [Lit ''-itsoffset'', StringOf (- offset_sec)], Input videoTmp])
        else [])
     @ (if trim then [OutputOptions [Lit ''-shortest'']] else [])
     @ (if reencode
        then [VideoCodec ''libx264'',
              OutputOptions [Lit ''-preset'', Lit ''veryfast'', Lit ''-movflags'', Lit ''+faststart'']]
        else [OutputOptions [Lit ''-c:v'', Lit ''copy'']])
     @ [AudioCodec ''aac'', AudioBitrate bitrate]"

definition save :: "env \<Rightarrow> ff_call list \<Rightarrow> string \<Rightarrow> world \<Rightarrow> (string + unit) \<times> world" where
  "save env cmd outTmp w =
     (case ffmpeg env (fs w) cmd of
        End written \<Rightarrow> (Inr (), (did (Save cmd outTmp) w)\<lparr>fs := (fs w)(outTmp \<mapsto> written)\<rparr>)
      | Error msg left \<Rightarrow>
          (Inl msg, (did (Save cmd outTmp) w)
                      \<lparr>fs := (case left of None \<Rightarrow> fs w | Some part \<Rightarrow> (fs w)(outTmp \<mapsto> part))\<rparr>))"

text \<open>\<^verbatim>\<open>try { fs.unlinkSync(f); } catch {}\<close>.\<close>

definition unlinkSync :: "string \<Rightarrow> world \<Rightarrow> world" where
  "unlinkSync f w = (did (UnlinkSync f) w)\<lparr>fs := (fs w)(f := None)\<rparr>"

text \<open>\<^verbatim>\<open>Math.round(ms / 1000)\<close> on an integer number of milliseconds.\<close>

definition round_sec :: "int \<Rightarrow> int" where
  "round_sec ms = (ms + 500) div 1000"

definition merge_handler :: "env \<Rightarrow> merge_request \<Rightarrow> world \<Rightarrow> response \<times> world" where
  "merge_handler env req w =
     (let start = Date_now env (trace w) in
      if \<not> truthy (DROPBOX_TOKEN env)
      then (Response 400 (error_body ''Server missing DROPBOX_ACCESS_TOKEN env var''), w)
      else
        (let offset_sec = (case audio_offset_sec req of None \<Rightarrow> 0 | Some x \<Rightarrow> x);
             trim = (case trim_to_shortest req of None \<Rightarrow> True | Some b \<Rightarrow> b);
             reencode = (case reencode_video req of None \<Rightarrow> False | Some b \<Rightarrow> b);
             bitrate = (case audio_bitrate req of None \<Rightarrow> ''192k'' | Some s \<Rightarrow> s)
         in
         if \<not> truthy (out_path req)
         then (Response 400 (error_body ''Missing out_path (Dropbox destination path)''), w)
         else if \<not> (truthy (audio_url req) \<or> truthy (audio_path req))
         then (Response 400 (error_body ''Provide audio_url or audio_path''), w)
         else if \<not> (truthy (video_url req) \<or> truthy (video_path req))
         then (Response 400 (error_body ''Provide video_url or video_path''), w)
         else
           (case downloadToTemp env (audio_url req) (audio_path req) ''.mp3'' w of
              (Inl e, w1) \<Rightarrow> (Response 500 (error_body e), w1)
            | (Inr audioTmp, w1) \<Rightarrow>
           (case downloadToTemp env (video_url req) (video_path req) ''.mp4'' w1 of
              (Inl e, w2) \<Rightarrow> (Response 500 (error_body e), w2)
            | (Inr videoTmp, w2) \<Rightarrow>
           (case tmpFile env ''.mp4'' w2 of (outTmp, w3) \<Rightarrow>
           (case save env (ffmpeg_command videoTmp audioTmp offset_sec trim reencode bitrate) outTmp w3 of
              (Inl e, w4) \<Rightarrow> (Response 500 (error_body e), w4)
            | (Inr u, w4) \<Rightarrow>
           (case dropboxUpload env outTmp (case out_path req of Some p \<Rightarrow> p | None \<Rightarrow> []) w4 of
              (Inl e, w5) \<Rightarrow> (Response 500 (error_body e), w5)
            | (Inr uploaded, w5) \<Rightarrow>
                (let w6 = fold unlinkSync [audioTmp, videoTmp, outTmp] w5;
                     elapsed = round_sec (Date_now env (trace w6) - start)
                 in (Response 200
                       (JObj [(''ok'', JBool True),
                              (''out_path'', JStr (case out_path req of Some p \<Rightarrow> p | None \<Rightarrow> [])),
                              (''uploaded'', uploaded),
                              (''elapsed_sec'', JNum elapsed)]), w6)))))))))"

section \<open>The command builder of fluent-ffmpeg\<close>

text \<open>
  fluent-ffmpeg is a dependency of the server, not part of its source. Its builder keeps
  the list of inputs, each with its own options, and a current input:
  \<^verbatim>\<open>input(source)\<close> adds an input without options and makes it the current one;
  \<^verbatim>\<open>inputOptions(options)\<close> adds the options to the current input, that is the last one
  added, and throws when there is none. On the command line each input's options come
  before its \<^verbatim>\<open>-i source\<close>. The other builder calls leave the inputs as they are.
\<close>

fun builder_inputs ::
  "ff_call list \<Rightarrow> (string \<times> token list) list \<Rightarrow> string + (string \<times> token list) list" where
  "builder_inputs [] inputs = Inr inputs"
| "builder_inputs (Input source # calls) inputs = builder_inputs calls (inputs @ [(source, [])])"
| "builder_inputs (InputOptions options # calls) inputs =
     (if inputs = [] then Inl ''No input specified''
      else builder_inputs calls
             (butlast inputs @ [(fst (last inputs), snd (last inputs) @ options)]))"
| "builder_inputs (c # calls) inputs = builder_inputs calls inputs"

section \<open>Reading a command and a trace\<close>

text \<open>The builder calls that declare an input or give it options.\<close>

fun is_input_call :: "ff_call \<Rightarrow> bool" where
  "is_input_call (Input source) = True"
| "is_input_call (InputOptions options) = True"
| "is_input_call c = False"

text \<open>The bytes a call carries, and which endpoint it is for.\<close>

fun body_of :: "event \<Rightarrow> byte list" where
  "body_of (AxiosPost link auth arg (Bytes b)) = b"
| "body_of e = []"

fun is_append :: "event \<Rightarrow> bool" where
  "is_append (AxiosPost link auth (Some (AppendArg c cl)) b) =
     (link = ''https://content.dropboxapi.com/2/files/upload_session/append_v2'')"
| "is_append e = False"

fun is_finish :: "event \<Rightarrow> bool" where
  "is_finish (AxiosPost link auth (Some (FinishArg c ci)) b) =
     (link = ''https://content.dropboxapi.com/2/files/upload_session/finish'')"
| "is_finish e = False"

fun is_unlink :: "event \<Rightarrow> bool" where
  "is_unlink (UnlinkSync f) = True"
| "is_unlink e = False"

fun is_http :: "event \<Rightarrow> bool" where
  "is_http (AxiosPost link auth arg b) = True"
| "is_http (AxiosGet link) = True"
| "is_http e = False"

text \<open>The events recorded between the world \<open>w\<close> and the later world \<open>w'\<close>.\<close>

definition new_events :: "world \<Rightarrow> world \<Rightarrow> event list" where
  "new_events w w' = drop (length (trace w)) (trace w')"

section \<open>Example environments\<close>

text \<open>A Dropbox that accepts every call, a web server that delivers three bytes, an
  ffmpeg that writes one byte, and a URL parser that knows three addresses.\<close>

definition example_URL :: "string \<Rightarrow> url option" where
  "example_URL s =
     (if s = ''https://www.dropbox.com/s/abc/voice.mp3?dl=0''
      then Some \<lparr>hostname = ''www.dropbox.com'', searchParams = [(''dl'', ''0'')],
                 other = ''https://www.dropbox.com/s/abc/voice.mp3''\<rparr>
      else if s = ''https://db.tt/clip''
      then Some \<lparr>hostname = ''db.tt'', searchParams = [], other = ''https://db.tt/clip''\<rparr>
      else if s = ''https://example.org/clip.mp4?dl=0''
      then Some \<lparr>hostname = ''example.org'', searchParams = [(''dl'', ''0'')],
                 other = ''https://example.org/clip.mp4''\<rparr>
      else None)"

definition example_toString :: "url \<Rightarrow> string" where
  "example_toString u =
     other u @ ''?'' @ concat (map (\<lambda>p. fst p @ ''='' @ snd p @ ''&'') (searchParams u))"

definition example_env :: env where
  "example_env =
     \<lparr>DROPBOX_TOKEN = Some ''token'',
      axios_post = (\<lambda>h c. Inr (JObj [(''session_id'', JStr ''s1''), (''link'', JStr ''https://example.org/f'')])),
      axios_get = (\<lambda>h u. Inr ([1, 2, 3], None)),
      ffmpeg = (\<lambda>files cmd. End [7]),
      randomUUID = (\<lambda>n. replicate (Suc n) CHR ''u''),
      tmpdir = ''/tmp'',
      path_join = (\<lambda>dir name. dir @ ''/'' @ name),
      new_URL = example_URL,
      toString = example_toString,
      Date_now = (\<lambda>h. 1000 * int (length h))\<rparr>"

definition failing_ffmpeg_env :: env where
  "failing_ffmpeg_env = example_env\<lparr>ffmpeg := (\<lambda>files cmd. Error ''ffmpeg exited with code 1'' None)\<rparr>"

definition empty_world :: world where
  "empty_world = \<lparr>trace = [], fs = Map.empty, uuids = 0\<rparr>"

definition big_file :: "byte list" where
  "big_file = replicate (150 * 1024 * 1024 + 1) 0"

definition big_world :: world where
  "big_world = \<lparr>trace = [], fs = [''/tmp/out.mp4'' \<mapsto> big_file], uuids = 0\<rparr>"

definition small_world :: world where
  "small_world = \<lparr>trace = [], fs = [''/tmp/out.mp4'' \<mapsto> [1, 2, 3]], uuids = 0\<rparr>"

definition example_request :: merge_request where
  "example_request =
     \<lparr>audio_url = Some ''https://www.dropbox.com/s/abc/voice.mp3?dl=0'',
      video_url = Some ''https://example.org/clip.mp4?dl=0'',
      audio_path = None, video_path = None,
      out_path = Some ''/out.mp4'',
      audio_offset_sec = None, trim_to_shortest = None, reencode_video = None,
      audio_bitrate = None\<rparr>"

section \<open>The upload loop\<close>

lemma CHUNK_pos: "0 < CHUNK" by (simp add: CHUNK_def)

lemma upload_loop_NaN: "upload_loop env sid dest content NaN buffer w = (Inr (), w)"
  by (simp add: upload_loop.simps)

lemma upload_loop_done:
  "\<not> offs < length content \<Longrightarrow> upload_loop env sid dest content (Num offs) buffer w = (Inr (), w)"
  by (simp add: upload_loop.simps)

text \<open>One pass from an offset inside the file: \<^verbatim>\<open>bytesRead\<close> is undefined, so the pass is
  never the last one, its call is an append that carries the whole buffer, and the offset
  becomes \<^verbatim>\<open>NaN\<close>, which ends the loop.\<close>

lemma upload_loop_pass:
  assumes "offs < length content"
  shows "upload_loop env sid dest content (Num offs) buffer w =
         (case axios_post env (trace w)
                 (append_v2 env sid offs
                    (snd (readSync content buffer (min CHUNK (length content - offs)) offs))) of
            Inl e \<Rightarrow>
              (Inl e, did (append_v2 env sid offs
                             (snd (readSync content buffer (min CHUNK (length content - offs)) offs))) w)
          | Inr r \<Rightarrow>
              (Inr (), did (append_v2 env sid offs
                              (snd (readSync content buffer (min CHUNK (length content - offs)) offs))) w))"
  using assms
  by (subst upload_loop.simps)
     (simp add: property_bytesRead_def subarray_def Let_def upload_loop_NaN
           split: prod.splits sum.splits)

lemma upload_loop_extends:
  "\<exists>rest. trace (snd (upload_loop env sid dest content offset buffer w)) = trace w @ rest
          \<and> list_all is_http rest"
proof (cases offset)
  case NaN
  then show ?thesis by (simp add: upload_loop_NaN)
next
  case (Num offs)
  show ?thesis
  proof (cases "offs < length content")
    case True
    then show ?thesis
      unfolding Num by (simp add: upload_loop_pass did_def append_v2_def split: sum.splits)
  next
    case False
    then show ?thesis unfolding Num by (simp add: upload_loop_done)
  qed
qed

section \<open>dropboxUpload as a whole\<close>

lemma dropboxUpload_small:
  assumes "fs w localPath = Some content" "length content \<le> 150 * 1024 * 1024"
  shows "dropboxUpload env localPath dest w =
         (case axios_post env (trace w) (files_upload env dest content) of
            Inl e \<Rightarrow> (Inl e, did (files_upload env dest content) w)
          | Inr data \<Rightarrow> (Inr data, did (files_upload env dest content) w))"
  using assms by (simp add: dropboxUpload_def)

text \<open>Above 150 MiB, for every file and every environment: the start call, then one append
  call at offset 0 with the first 8 MiB, and no further call.\<close>

lemma first_buffer:
  assumes "150 * 1024 * 1024 < length content"
  shows "snd (readSync content (replicate CHUNK 0) (min CHUNK (length content - 0)) 0) = take CHUNK content"
proof -
  have "CHUNK < length content" using assms by (simp add: CHUNK_def)
  then show ?thesis by (simp add: readSync_def Let_def min_def)
qed

lemma upload_loop_first:
  assumes "150 * 1024 * 1024 < length content"
  shows "upload_loop env sid dest content (Num 0) (replicate CHUNK 0) w =
         (case axios_post env (trace w) (append_v2 env sid 0 (take CHUNK content)) of
            Inl e \<Rightarrow> (Inl e, did (append_v2 env sid 0 (take CHUNK content)) w)
          | Inr r \<Rightarrow> (Inr (), did (append_v2 env sid 0 (take CHUNK content)) w))"
proof -
  have pos: "0 < length content" using assms by linarith
  show ?thesis
    unfolding upload_loop_pass [OF pos] first_buffer [OF assms] ..
qed

lemma dropboxUpload_large:
  assumes "fs w localPath = Some content" "150 * 1024 * 1024 < length content"
  shows "dropboxUpload env localPath dest w =
         (case axios_post env (trace w) (session_start env) of
            Inl e \<Rightarrow> (Inl e, did (session_start env) w)
          | Inr data \<Rightarrow>
              (case axios_post env (trace (did (session_start env) w))
                      (append_v2 env (str_field ''session_id'' data) 0 (take CHUNK content)) of
                 Inl e \<Rightarrow>
                   (Inl e, did (append_v2 env (str_field ''session_id'' data) 0 (take CHUNK content))
                             (did (session_start env) w))
               | Inr r \<Rightarrow>
                   (Inr (JObj [(''path_display'', JStr dest), (''size'', JNum (int (length content)))]),
                    did (append_v2 env (str_field ''session_id'' data) 0 (take CHUNK content))
                      (did (session_start env) w))))"
  using assms
  by (simp add: dropboxUpload_def upload_loop_first [OF assms(2)] Let_def split: sum.splits)

lemma large_upload_sends_one_append:
  assumes "fs w localPath = Some content" "150 * 1024 * 1024 < length content"
      and "dropboxUpload env localPath dest w = (Inr r, w')"
  shows "\<exists>data. axios_post env (trace w) (session_start env) = Inr data
           \<and> r = JObj [(''path_display'', JStr dest), (''size'', JNum (int (length content)))]
           \<and> trace w' = trace w @ [session_start env,
                                    append_v2 env (str_field ''session_id'' data) 0 (take CHUNK content)]"
  using assms(3) unfolding dropboxUpload_large [OF assms(1,2)]
  by (auto simp: did_def split: sum.splits)

lemma big_file_length: "length big_file = 157286401"
  by (simp add: big_file_def)

lemma big_upload:
  "dropboxUpload example_env ''/tmp/out.mp4'' ''/out.mp4'' big_world =
     (Inr (JObj [(''path_display'', JStr ''/out.mp4''), (''size'', JNum 157286401)]),
      big_world\<lparr>trace := [session_start example_env,
                           append_v2 example_env (Some ''s1'') 0 (take CHUNK big_file)]\<rparr>)"
proof -
  have f: "fs big_world ''/tmp/out.mp4'' = Some big_file" by (simp add: big_world_def)
  have l: "150 * 1024 * 1024 < length big_file" by (simp add: big_file_length)
  have p: "\<And>h c. axios_post example_env h c
             = Inr (JObj [(''session_id'', JStr ''s1''), (''link'', JStr ''https://example.org/f'')])"
    by (simp add: example_env_def)
  have t: "trace big_world = []" by (simp add: big_world_def)
  show ?thesis
    unfolding dropboxUpload_large [OF f l]
    by (simp add: p t did_def big_file_length)
qed

lemma small_upload:
  "dropboxUpload example_env ''/tmp/out.mp4'' ''/out.mp4'' small_world =
     (Inr (JObj [(''session_id'', JStr ''s1''), (''link'', JStr ''https://example.org/f'')]),
      small_world\<lparr>trace := trace small_world @ [files_upload example_env ''/out.mp4'' [1, 2, 3]]\<rparr>)"
  by (simp add: dropboxUpload_def small_world_def example_env_def did_def)

section \<open>Chunked upload\<close>

text \<open>
  C2, evaluated for a file of 150 MiB + 1 bytes and a Dropbox that accepts every call. The
  claim has \<open>ceil(S/C) - 1\<close> = 18 append calls and then a finish call that carries the rest.
  The upload returns its result after the start call and one append call at offset 0: there
  is no finish call, and the calls carry 8 MiB of the file's 157286401 bytes.
\<close>

theorem chunked_upload_stops_after_one_append:
  "fst (dropboxUpload example_env ''/tmp/out.mp4'' ''/out.mp4'' big_world)
     = Inr (JObj [(''path_display'', JStr ''/out.mp4''), (''size'', JNum 157286401)])
   \<and> length big_file = 157286401
   \<and> nat \<lceil>real (length big_file) / real CHUNK\<rceil> - 1 = 18
   \<and> length (filter is_append
        (trace (snd (dropboxUpload example_env ''/tmp/out.mp4'' ''/out.mp4'' big_world)))) = 1
   \<and> filter is_finish
        (trace (snd (dropboxUpload example_env ''/tmp/out.mp4'' ''/out.mp4'' big_world))) = []
   \<and> length (concat (map body_of
        (trace (snd (dropboxUpload example_env ''/tmp/out.mp4'' ''/out.mp4'' big_world))))) = 8388608"
  unfolding big_upload
  by (simp add: big_file_length CHUNK_def session_start_def append_v2_def)

text \<open>
  C3, evaluated for the same file. On the chunked path the bodies of the calls, in order,
  are the first 8 MiB of the file and not the file.
\<close>

theorem chunked_upload_sends_first_chunk_only:
  "concat (map body_of
      (trace (snd (dropboxUpload example_env ''/tmp/out.mp4'' ''/out.mp4'' big_world))))
     = take CHUNK big_file
   \<and> take CHUNK big_file \<noteq> big_file"
proof
  show "concat (map body_of
      (trace (snd (dropboxUpload example_env ''/tmp/out.mp4'' ''/out.mp4'' big_world))))
     = take CHUNK big_file"
    unfolding big_upload by (simp add: session_start_def append_v2_def)
next
  show "take CHUNK big_file \<noteq> big_file"
  proof
    assume "take CHUNK big_file = big_file"
    then have "length (take CHUNK big_file) = length big_file" by simp
    then show False by (simp add: big_file_length CHUNK_def)
  qed
qed

section \<open>Choice of the upload strategy\<close>

text \<open>
  C4, evaluated for the same file. The upload returns its result, and the calls it made
  are the session start and one append: the third phase, the finish call with the commit
  that names the destination path, is missing.
\<close>

theorem chunked_upload_never_finishes:
  "dropboxUpload example_env ''/tmp/out.mp4'' ''/out.mp4'' big_world =
     (Inr (JObj [(''path_display'', JStr ''/out.mp4''), (''size'', JNum 157286401)]),
      big_world\<lparr>trace :=
        [AxiosPost ''https://content.dropboxapi.com/2/files/upload_session/start'' ''Bearer token''
           (Some (StartArg False)) (Text []),
         AxiosPost ''https://content.dropboxapi.com/2/files/upload_session/append_v2'' ''Bearer token''
           (Some (AppendArg (Cursor (Some ''s1'') 0) False)) (Bytes (take CHUNK big_file))]\<rparr>)
   \<and> \<not> list_ex is_finish
         (trace (snd (dropboxUpload example_env ''/tmp/out.mp4'' ''/out.mp4'' big_world)))"
  unfolding big_upload
  by (simp add: session_start_def append_v2_def bearer_def example_env_def)

text \<open>Up to 150 MiB the strategy is the one call of the upload endpoint, with the
  destination path and mode \<open>overwrite\<close>, whether or not the call succeeds.\<close>

lemma small_upload_is_one_call:
  assumes "fs w localPath = Some content" "length content \<le> 150 * 1024 * 1024"
  shows "trace (snd (dropboxUpload env localPath dest w)) =
           trace w @ [AxiosPost ''https://content.dropboxapi.com/2/files/upload'' (bearer env)
                        (Some (UploadArg (CommitInfo dest ''overwrite'' False False))) (Bytes content)]"
  by (simp add: dropboxUpload_small [OF assms] did_def files_upload_def split: sum.splits)

section \<open>What dropboxUpload returns\<close>

text \<open>
  C10. On the chunked path the result is the object \<open>{ path_display, size }\<close> built from
  the destination path and the file size, whatever the provider answered to any call of
  the session; on the single-shot path the result is the provider's answer to the upload
  call.
\<close>

theorem upload_result_metadata:
  assumes "fs w localPath = Some content"
      and "dropboxUpload env localPath dest w = (Inr r, w')"
  shows "(150 * 1024 * 1024 < length content \<longrightarrow>
            r = JObj [(''path_display'', JStr dest), (''size'', JNum (int (length content)))])
       \<and> (length content \<le> 150 * 1024 * 1024 \<longrightarrow>
            axios_post env (trace w) (files_upload env dest content) = Inr r)"
proof (intro conjI impI)
  assume "150 * 1024 * 1024 < length content"
  from large_upload_sends_one_append [OF assms(1) this assms(2)]
  show "r = JObj [(''path_display'', JStr dest), (''size'', JNum (int (length content)))]"
    by blast
next
  assume "length content \<le> 150 * 1024 * 1024"
  from assms(2) show "axios_post env (trace w) (files_upload env dest content) = Inr r"
    unfolding dropboxUpload_small [OF assms(1) \<open>length content \<le> 150 * 1024 * 1024\<close>]
    by (auto split: sum.splits)
qed

theorem upload_result_metadata_witness:
  "(fs big_world ''/tmp/out.mp4'' = Some big_file
    \<and> dropboxUpload example_env ''/tmp/out.mp4'' ''/out.mp4'' big_world =
       (Inr (JObj [(''path_display'', JStr ''/out.mp4''), (''size'', JNum 157286401)]),
        big_world\<lparr>trace := [session_start example_env,
                             append_v2 example_env (Some ''s1'') 0 (take CHUNK big_file)]\<rparr>)
    \<and> 150 * 1024 * 1024 < length big_file
    \<and> JObj [(''path_display'', JStr ''/out.mp4''), (''size'', JNum 157286401)]
        = JObj [(''path_display'', JStr ''/out.mp4''), (''size'', JNum (int (length big_file)))])
   \<and> (fs small_world ''/tmp/out.mp4'' = Some [1, 2, 3]
    \<and> dropboxUpload example_env ''/tmp/out.mp4'' ''/out.mp4'' small_world =
        (Inr (JObj [(''session_id'', JStr ''s1''), (''link'', JStr ''https://example.org/f'')]),
         small_world\<lparr>trace := trace small_world @ [files_upload example_env ''/out.mp4'' [1, 2, 3]]\<rparr>)
    \<and> length [1, 2, 3 :: byte] \<le> 150 * 1024 * 1024
    \<and> axios_post example_env (trace small_world) (files_upload example_env ''/out.mp4'' [1, 2, 3])
        = Inr (JObj [(''session_id'', JStr ''s1''), (''link'', JStr ''https://example.org/f'')]))"
proof -
  have fs: "fs small_world ''/tmp/out.mp4'' = Some [1, 2, 3]" by (simp add: small_world_def)
  have ls: "length [1, 2, 3 :: byte] \<le> 150 * 1024 * 1024" by simp
  have fb: "fs big_world ''/tmp/out.mp4'' = Some big_file" by (simp add: big_world_def)
  have lb: "150 * 1024 * 1024 < length big_file" by (simp add: big_file_length)
  from upload_result_metadata [OF fb big_upload] lb
  have a: "JObj [(''path_display'', JStr ''/out.mp4''), (''size'', JNum 157286401)]
        = JObj [(''path_display'', JStr ''/out.mp4''), (''size'', JNum (int (length big_file)))]"
    by blast
  from upload_result_metadata [OF fs small_upload] ls
  have b: "axios_post example_env (trace small_world) (files_upload example_env ''/out.mp4'' [1, 2, 3])
        = Inr (JObj [(''session_id'', JStr ''s1''), (''link'', JStr ''https://example.org/f'')])"
    by simp
  show ?thesis using fs ls fb lb a b big_upload small_upload by blast
qed

section \<open>Validation of the request\<close>

lemma handler_rejects_falsy:
  assumes "\<not> truthy (out_path req) \<or> \<not> (truthy (audio_url req) \<or> truthy (audio_path req))
           \<or> \<not> (truthy (video_url req) \<or> truthy (video_path req))"
  shows "\<exists>msg. merge_handler env req w = (Response 400 (error_body msg), w)"
  using assms by (auto simp: merge_handler_def Let_def)

text \<open>
  C5. A request without \<open>out_path\<close>, or with neither \<open>audio_url\<close> nor \<open>audio_path\<close>, or
  with neither \<open>video_url\<close> nor \<open>video_path\<close>, is answered with status 400 and the world
  is left as it was: no call in the trace, no file written, no temporary name drawn.
  With a token configured, a missing \<open>out_path\<close> is what the answer reports, whatever the
  audio and video fields are.
\<close>

theorem validation_rejects_before_io:
  assumes "out_path req = None
           \<or> (audio_url req = None \<and> audio_path req = None)
           \<or> (video_url req = None \<and> video_path req = None)"
  shows "(\<exists>msg. merge_handler env req w = (Response 400 (error_body msg), w))
       \<and> (out_path req = None \<and> truthy (DROPBOX_TOKEN env) \<longrightarrow>
            merge_handler env req w =
              (Response 400 (error_body ''Missing out_path (Dropbox destination path)''), w))"
proof
  from assms have "\<not> truthy (out_path req) \<or> \<not> (truthy (audio_url req) \<or> truthy (audio_path req))
           \<or> \<not> (truthy (video_url req) \<or> truthy (video_path req))"
    by auto
  then show "\<exists>msg. merge_handler env req w = (Response 400 (error_body msg), w)"
    by (rule handler_rejects_falsy)
next
  show "out_path req = None \<and> truthy (DROPBOX_TOKEN env) \<longrightarrow>
            merge_handler env req w =
              (Response 400 (error_body ''Missing out_path (Dropbox destination path)''), w)"
    by (simp add: merge_handler_def Let_def)
qed

theorem validation_rejects_before_io_witness:
  "out_path (example_request\<lparr>out_path := None, audio_url := None\<rparr>) = None
   \<and> truthy (DROPBOX_TOKEN example_env)
   \<and> merge_handler example_env (example_request\<lparr>out_path := None, audio_url := None\<rparr>) empty_world =
       (Response 400 (error_body ''Missing out_path (Dropbox destination path)''), empty_world)"
proof -
  have a: "out_path (example_request\<lparr>out_path := None, audio_url := None\<rparr>) = None" by simp
  have t: "truthy (DROPBOX_TOKEN example_env)" by (simp add: example_env_def)
  from validation_rejects_before_io [of "example_request\<lparr>out_path := None, audio_url := None\<rparr>" example_env empty_world] a t
  show ?thesis by simp
qed

text \<open>
  C8. Without a configured token every request is answered at once with status 400 and
  the message about the missing token, and the world is left as it was: no network call,
  no download, no merge, no upload.
\<close>

theorem missing_token_rejects:
  assumes "\<not> truthy (DROPBOX_TOKEN env)"
  shows "merge_handler env req w =
           (Response 400 (error_body ''Server missing DROPBOX_ACCESS_TOKEN env var''), w)"
  using assms by (simp add: merge_handler_def Let_def)

theorem missing_token_rejects_witness:
  "\<not> truthy (DROPBOX_TOKEN (example_env\<lparr>DROPBOX_TOKEN := None\<rparr>))
   \<and> merge_handler (example_env\<lparr>DROPBOX_TOKEN := None\<rparr>) example_request empty_world =
       (Response 400 (error_body ''Server missing DROPBOX_ACCESS_TOKEN env var''), empty_world)"
proof -
  have a: "\<not> truthy (DROPBOX_TOKEN (example_env\<lparr>DROPBOX_TOKEN := None\<rparr>))" by simp
  from missing_token_rejects [OF a] a show ?thesis by simp
qed

section \<open>The ffmpeg command\<close>

text \<open>What one stage adds to the trace.\<close>

lemma http_not_unlink: "is_http e \<Longrightarrow> \<not> is_unlink e"
  by (cases e) simp_all

lemma dropboxTemporaryLinkByPath_trace:
  "\<exists>new. trace (snd (dropboxTemporaryLinkByPath env p w)) = trace w @ new \<and> list_all is_http new"
  by (simp add: dropboxTemporaryLinkByPath_def Let_def did_def split: sum.splits)

lemma downloadToTemp_trace:
  "\<exists>new. trace (snd (downloadToTemp env link dropboxPath ext w)) = trace w @ new
         \<and> list_all is_http new"
proof -
  let ?res = "if \<not> truthy link \<and> truthy dropboxPath
              then dropboxTemporaryLinkByPath env (case dropboxPath of Some p \<Rightarrow> p | None \<Rightarrow> []) w
              else (Inr link, w)"
  obtain r w1 where res: "?res = (r, w1)" by (cases ?res)
  have "\<exists>new. trace (snd ?res) = trace w @ new \<and> list_all is_http new"
    using dropboxTemporaryLinkByPath_trace by simp
  then obtain n1 where n1: "trace w1 = trace w @ n1" "list_all is_http n1"
    by (auto simp only: res snd_conv)
  have "\<exists>new. trace (snd (downloadToTemp env link dropboxPath ext w)) = trace w1 @ new
          \<and> list_all is_http new"
    unfolding downloadToTemp_def res
    by (simp add: tmpFile_def did_def Let_def split: sum.splits option.splits prod.splits)
  then obtain n2 where "trace (snd (downloadToTemp env link dropboxPath ext w)) = trace w1 @ n2"
    "list_all is_http n2" by blast
  with n1 have "trace (snd (downloadToTemp env link dropboxPath ext w)) = trace w @ (n1 @ n2)
    \<and> list_all is_http (n1 @ n2)" by simp
  then show ?thesis by blast
qed

lemma dropboxUpload_trace:
  "\<exists>new. trace (snd (dropboxUpload env localPath dest w)) = trace w @ new \<and> list_all is_http new"
proof (cases "fs w localPath")
  case None
  then show ?thesis by (simp add: dropboxUpload_def)
next
  case (Some content)
  show ?thesis
  proof (cases "length content \<le> 150 * 1024 * 1024")
    case True
    then show ?thesis
      by (simp add: dropboxUpload_small [OF Some] did_def files_upload_def split: sum.splits)
  next
    case False
    show ?thesis
    proof (cases "axios_post env (trace w) (session_start env)")
      case (Inl e)
      with Some False show ?thesis by (simp add: dropboxUpload_def did_def session_start_def)
    next
      case (Inr data)
      let ?l = "upload_loop env (str_field ''session_id'' data) dest content (Num 0) (replicate CHUNK 0)
                  (did (session_start env) w)"
      have eq: "snd (dropboxUpload env localPath dest w) = snd ?l"
        using Some False Inr by (simp add: dropboxUpload_def split: prod.splits sum.splits)
      obtain rest where "trace (snd ?l) = trace (did (session_start env) w) @ rest"
        "list_all is_http rest"
        using upload_loop_extends by blast
      then have "trace (snd ?l) = trace w @ (session_start env # rest)
                 \<and> list_all is_http (session_start env # rest)"
        by (simp add: did_def session_start_def)
      then show ?thesis unfolding eq by blast
    qed
  qed
qed

lemma save_trace: "trace (snd (save env cmd outTmp w)) = trace w @ [Save cmd outTmp]"
  by (simp add: save_def did_def split: ffmpeg_result.splits)

text \<open>The trace of one handler invocation: HTTP calls, at most one ffmpeg run, built
  from the request, HTTP calls again, and deletions only when the answer is 200.\<close>

lemma handler_trace:
  "\<exists>pre run post cleanup.
      trace (snd (merge_handler env req w)) = trace w @ pre @ run @ post @ cleanup
    \<and> list_all is_http pre \<and> list_all is_http post \<and> list_all is_unlink cleanup
    \<and> (run = [] \<or> (\<exists>videoTmp audioTmp outTmp.
           run = [Save (ffmpeg_command videoTmp audioTmp
                          (case audio_offset_sec req of None \<Rightarrow> 0 | Some x \<Rightarrow> x)
                          (case trim_to_shortest req of None \<Rightarrow> True | Some b \<Rightarrow> b)
                          (case reencode_video req of None \<Rightarrow> False | Some b \<Rightarrow> b)
                          (case audio_bitrate req of None \<Rightarrow> ''192k'' | Some s \<Rightarrow> s)) outTmp]))
    \<and> (cleanup \<noteq> [] \<longrightarrow> (\<exists>b. fst (merge_handler env req w) = Response 200 b))"
  (is "\<exists>pre run post cleanup. ?P pre run post cleanup")
proof (cases "truthy (DROPBOX_TOKEN env) \<and> truthy (out_path req)
     \<and> (truthy (audio_url req) \<or> truthy (audio_path req))
     \<and> (truthy (video_url req) \<or> truthy (video_path req))")
  case False
  then have "snd (merge_handler env req w) = w"
    by (auto simp: merge_handler_def Let_def)
  then have "?P [] [] [] []" by simp
  then show ?thesis by blast
next
  case valid: True
  let ?off = "case audio_offset_sec req of None \<Rightarrow> 0 | Some x \<Rightarrow> x"
  let ?trim = "case trim_to_shortest req of None \<Rightarrow> True | Some b \<Rightarrow> b"
  let ?re = "case reencode_video req of None \<Rightarrow> False | Some b \<Rightarrow> b"
  let ?br = "case audio_bitrate req of None \<Rightarrow> ''192k'' | Some s \<Rightarrow> s"
  let ?dest = "case out_path req of Some p \<Rightarrow> p | None \<Rightarrow> []"
  obtain r1 w1 where d1: "downloadToTemp env (audio_url req) (audio_path req) ''.mp3'' w = (r1, w1)"
    by (cases "downloadToTemp env (audio_url req) (audio_path req) ''.mp3'' w")
  obtain n1 where n1: "trace w1 = trace w @ n1" "list_all is_http n1"
    using downloadToTemp_trace [of env "audio_url req" "audio_path req" "''.mp3''" w] d1 by auto
  obtain r2 w2 where d2: "downloadToTemp env (video_url req) (video_path req) ''.mp4'' w1 = (r2, w2)"
    by (cases "downloadToTemp env (video_url req) (video_path req) ''.mp4'' w1")
  obtain n2 where n2: "trace w2 = trace w1 @ n2" "list_all is_http n2"
    using downloadToTemp_trace [of env "video_url req" "video_path req" "''.mp4''" w1] d2 by auto
  obtain outTmp w3 where t3: "tmpFile env ''.mp4'' w2 = (outTmp, w3)"
    by (cases "tmpFile env ''.mp4'' w2")
  have tr3: "trace w3 = trace w2" using t3 by (auto simp: tmpFile_def)
  show ?thesis
  proof (cases r1)
    case (Inl e)
    with valid d1 have "snd (merge_handler env req w) = w1" by (simp add: merge_handler_def Let_def)
    with n1 have "?P n1 [] [] []" by simp
    then show ?thesis by blast
  next
    case a: (Inr audioTmp)
    show ?thesis
    proof (cases r2)
      case (Inl e)
      with valid d1 d2 a have "snd (merge_handler env req w) = w2"
        by (simp add: merge_handler_def Let_def)
      with n1 n2 have "?P (n1 @ n2) [] [] []" by simp
      then show ?thesis by blast
    next
      case v: (Inr videoTmp)
      let ?cmd = "ffmpeg_command videoTmp audioTmp ?off ?trim ?re ?br"
      obtain r4 w4 where s4: "save env ?cmd outTmp w3 = (r4, w4)"
        by (cases "save env ?cmd outTmp w3")
      have tr4: "trace w4 = trace w @ (n1 @ n2) @ [Save ?cmd outTmp]"
        using save_trace [of env ?cmd outTmp w3] s4 tr3 n1 n2 by simp
      have pre: "list_all is_http (n1 @ n2)" using n1 n2 by simp
      have run: "\<exists>v a out. [Save ?cmd outTmp] = [Save (ffmpeg_command v a ?off ?trim ?re ?br) out]"
        by blast
      obtain r5 w5 where u5: "dropboxUpload env outTmp ?dest w4 = (r5, w5)"
        by (cases "dropboxUpload env outTmp ?dest w4")
      obtain n5 where n5: "trace w5 = trace w4 @ n5" "list_all is_http n5"
        using dropboxUpload_trace [of env outTmp ?dest w4] u5 by auto
      show ?thesis
      proof (cases r4)
        case (Inl e)
        with valid d1 d2 a v t3 s4 have "snd (merge_handler env req w) = w4"
          by (simp add: merge_handler_def Let_def)
        with tr4 pre run have "?P (n1 @ n2) [Save ?cmd outTmp] [] []" by simp
        then show ?thesis by blast
      next
        case m: (Inr u)
        show ?thesis
        proof (cases r5)
          case (Inl e)
          with valid d1 d2 a v t3 s4 m u5 have "snd (merge_handler env req w) = w5"
            by (simp add: merge_handler_def Let_def)
          with tr4 pre run n5 have "?P (n1 @ n2) [Save ?cmd outTmp] n5 []" by simp
          then show ?thesis by blast
        next
          case (Inr uploaded)
          let ?w6 = "fold unlinkSync [audioTmp, videoTmp, outTmp] w5"
          from Inr valid d1 d2 a v t3 s4 m u5
          have fin: "snd (merge_handler env req w) = ?w6"
            "\<exists>b. fst (merge_handler env req w) = Response 200 b"
            by (simp_all add: merge_handler_def Let_def)
          have "trace ?w6 = trace w5 @ [UnlinkSync audioTmp, UnlinkSync videoTmp, UnlinkSync outTmp]"
            by (simp add: unlinkSync_def did_def)
          with fin tr4 pre run n5
          have "?P (n1 @ n2) [Save ?cmd outTmp] n5
                  [UnlinkSync audioTmp, UnlinkSync videoTmp, UnlinkSync outTmp]"
            by simp
          then show ?thesis by blast
        qed
      qed
    qed
  qed
qed

lemma handler_saves:
  assumes "Save cmd out \<in> set (new_events w (snd (merge_handler env req w)))"
  shows "\<exists>videoTmp audioTmp.
           cmd = ffmpeg_command videoTmp audioTmp
                   (case audio_offset_sec req of None \<Rightarrow> 0 | Some x \<Rightarrow> x)
                   (case trim_to_shortest req of None \<Rightarrow> True | Some b \<Rightarrow> b)
                   (case reencode_video req of None \<Rightarrow> False | Some b \<Rightarrow> b)
                   (case audio_bitrate req of None \<Rightarrow> ''192k'' | Some s \<Rightarrow> s)"
proof -
  from handler_trace [of env req w] obtain pre run post cleanup where
    t: "trace (snd (merge_handler env req w)) = trace w @ pre @ run @ post @ cleanup"
    and h: "list_all is_http pre" "list_all is_http post" "list_all is_unlink cleanup"
    and r: "run = [] \<or> (\<exists>videoTmp audioTmp outTmp.
           run = [Save (ffmpeg_command videoTmp audioTmp
                          (case audio_offset_sec req of None \<Rightarrow> 0 | Some x \<Rightarrow> x)
                          (case trim_to_shortest req of None \<Rightarrow> True | Some b \<Rightarrow> b)
                          (case reencode_video req of None \<Rightarrow> False | Some b \<Rightarrow> b)
                          (case audio_bitrate req of None \<Rightarrow> ''192k'' | Some s \<Rightarrow> s)) outTmp])"
    by blast
  have "Save cmd out \<notin> set pre" "Save cmd out \<notin> set post" "Save cmd out \<notin> set cleanup"
    using h by (auto simp: list_all_iff)
  moreover have "Save cmd out \<in> set (pre @ run @ post @ cleanup)"
    using assms t by (simp add: new_events_def)
  ultimately have "Save cmd out \<in> set run" by simp
  with r show ?thesis by fastforce
qed

lemma ffmpeg_command_codecs:
  "\<exists>before. ffmpeg_command videoTmp audioTmp offset_sec trim reencode bitrate =
       before
       @ (if reencode
          then [VideoCodec ''libx264'',
                OutputOptions [Lit ''-preset'', Lit ''veryfast'', Lit ''-movflags'', Lit ''+faststart'']]
          else [OutputOptions [Lit ''-c:v'', Lit ''copy'']])
       @ [AudioCodec ''aac'', AudioBitrate bitrate]
     \<and> list_all (\<lambda>c. is_input_call c \<or> c = OutputOptions [Lit ''-shortest'']) before"
  unfolding ffmpeg_command_def
  by (rule exI [of _ "[Input videoTmp, Input audioTmp]
     @ (if offset_sec \<noteq> 0 then
          (if offset_sec > 0
           then [InputOptions [Lit ''-itsoffset'', StringOf offset_sec], Input audioTmp]
           else [InputOptions [Lit ''-itsoffset'', StringOf (- offset_sec)], Input videoTmp])
        else [])
     @ (if trim then [OutputOptions [Lit ''-shortest'']] else [])"]) simp

text \<open>
  C7. Every ffmpeg command the handler runs ends, after the input declarations and the
  optional \<open>-shortest\<close>, with exactly the codec directives: \<open>libx264\<close> with preset
  \<open>veryfast\<close> and movflags \<open>+faststart\<close> when \<open>reencode_video\<close> is set, \<open>-c:v copy\<close> when
  it is not, and in both cases the audio codec \<open>aac\<close> at the requested bitrate (192k when
  the request names none).
\<close>

theorem codec_directives:
  assumes "Save cmd outTmp \<in> set (new_events w (snd (merge_handler env req w)))"
  shows "\<exists>before.
           cmd = before
             @ (if (case reencode_video req of None \<Rightarrow> False | Some b \<Rightarrow> b)
                then [VideoCodec ''libx264'',
                      OutputOptions [Lit ''-preset'', Lit ''veryfast'', Lit ''-movflags'', Lit ''+faststart'']]
                else [OutputOptions [Lit ''-c:v'', Lit ''copy'']])
             @ [AudioCodec ''aac'',
                AudioBitrate (case audio_bitrate req of None \<Rightarrow> ''192k'' | Some s \<Rightarrow> s)]
         \<and> list_all (\<lambda>c. is_input_call c \<or> c = OutputOptions [Lit ''-shortest'']) before"
proof -
  from handler_saves [OF assms] obtain videoTmp audioTmp where
    "cmd = ffmpeg_command videoTmp audioTmp
                   (case audio_offset_sec req of None \<Rightarrow> 0 | Some x \<Rightarrow> x)
                   (case trim_to_shortest req of None \<Rightarrow> True | Some b \<Rightarrow> b)
                   (case reencode_video req of None \<Rightarrow> False | Some b \<Rightarrow> b)
                   (case audio_bitrate req of None \<Rightarrow> ''192k'' | Some s \<Rightarrow> s)"
    by blast
  then show ?thesis using ffmpeg_command_codecs by simp
qed

lemma example_merge_trace:
  "trace (snd (merge_handler example_env
                 (example_request\<lparr>reencode_video := Some True, audio_bitrate := Some ''128k''\<rparr>)
                 empty_world)) =
     [AxiosGet ''https://www.dropbox.com/s/abc/voice.mp3?dl=1&'',
      AxiosGet ''https://example.org/clip.mp4?dl=0'',
      Save [Input ''/tmp/uu.mp4'', Input ''/tmp/u.mp3'', OutputOptions [Lit ''-shortest''],
            VideoCodec ''libx264'',
            OutputOptions [Lit ''-preset'', Lit ''veryfast'', Lit ''-movflags'', Lit ''+faststart''],
            AudioCodec ''aac'', AudioBitrate ''128k'']
           ''/tmp/uuu.mp4'',
      AxiosPost ''https://content.dropboxapi.com/2/files/upload'' ''Bearer token''
        (Some (UploadArg (CommitInfo ''/out.mp4'' ''overwrite'' False False))) (Bytes [7]),
      UnlinkSync ''/tmp/u.mp3'', UnlinkSync ''/tmp/uu.mp4'', UnlinkSync ''/tmp/uuu.mp4'']"
  by (simp add: merge_handler_def example_env_def example_request_def
      empty_world_def downloadToTemp_def isDropboxSharedLink_def toDirectDownload_def example_URL_def
      example_toString_def tmpFile_def endsWith_def searchParams_has_def did_def save_def Let_def
      ffmpeg_command_def dropboxUpload_def files_upload_def bearer_def unlinkSync_def)

theorem codec_directives_witness:
  "Save [Input ''/tmp/uu.mp4'', Input ''/tmp/u.mp3'', OutputOptions [Lit ''-shortest''],
         VideoCodec ''libx264'',
         OutputOptions [Lit ''-preset'', Lit ''veryfast'', Lit ''-movflags'', Lit ''+faststart''],
         AudioCodec ''aac'', AudioBitrate ''128k'']
        ''/tmp/uuu.mp4''
     \<in> set (new_events empty_world (snd (merge_handler example_env
                 (example_request\<lparr>reencode_video := Some True, audio_bitrate := Some ''128k''\<rparr>)
                 empty_world)))
   \<and> (\<exists>before.
         [Input ''/tmp/uu.mp4'', Input ''/tmp/u.mp3'', OutputOptions [Lit ''-shortest''],
          VideoCodec ''libx264'',
          OutputOptions [Lit ''-preset'', Lit ''veryfast'', Lit ''-movflags'', Lit ''+faststart''],
          AudioCodec ''aac'', AudioBitrate ''128k'']
         = before
           @ [VideoCodec ''libx264'',
              OutputOptions [Lit ''-preset'', Lit ''veryfast'', Lit ''-movflags'', Lit ''+faststart'']]
           @ [AudioCodec ''aac'', AudioBitrate ''128k'']
       \<and> list_all (\<lambda>c. is_input_call c \<or> c = OutputOptions [Lit ''-shortest'']) before)"
proof -
  let ?cmd = "[Input ''/tmp/uu.mp4'', Input ''/tmp/u.mp3'', OutputOptions [Lit ''-shortest''],
         VideoCodec ''libx264'',
         OutputOptions [Lit ''-preset'', Lit ''veryfast'', Lit ''-movflags'', Lit ''+faststart''],
         AudioCodec ''aac'', AudioBitrate ''128k'']"
  let ?req = "example_request\<lparr>reencode_video := Some True, audio_bitrate := Some ''128k''\<rparr>"
  have a: "Save ?cmd ''/tmp/uuu.mp4''
             \<in> set (new_events empty_world (snd (merge_handler example_env ?req empty_world)))"
    unfolding example_merge_trace new_events_def by (simp add: empty_world_def)
  from codec_directives [OF a] have "\<exists>before.
         ?cmd = before
           @ [VideoCodec ''libx264'',
              OutputOptions [Lit ''-preset'', Lit ''veryfast'', Lit ''-movflags'', Lit ''+faststart'']]
           @ [AudioCodec ''aac'', AudioBitrate ''128k'']
       \<and> list_all (\<lambda>c. is_input_call c \<or> c = OutputOptions [Lit ''-shortest'']) before"
    by simp
  with a show ?thesis by blast
qed

text \<open>The inputs of the command the handler builds, for every offset: video, then audio,
  then with a non-zero offset one duplicate (of the audio for a positive offset, of the
  video for a negative one). The offset option is on the second input.\<close>

lemma builder_inputs_of_command:
  "builder_inputs (ffmpeg_command videoTmp audioTmp offset_sec trim reencode bitrate) [] =
     Inr (if offset_sec = 0 then [(videoTmp, []), (audioTmp, [])]
          else [(videoTmp, []),
                (audioTmp, [Lit ''-itsoffset'', StringOf \<bar>offset_sec\<bar>]),
                (if offset_sec > 0 then audioTmp else videoTmp, [])])"
  by (simp add: ffmpeg_command_def)

text \<open>
  C6, evaluated for an offset of -2 and of 2 seconds. The handler calls \<open>inputOptions\<close>
  before it adds the third input, so the builder attaches \<open>-itsoffset\<close> to the input that
  is current then, the audio file declared second; the third input, a duplicate of the
  video (negative offset) or of the audio (positive offset), has no options.
\<close>

theorem offset_directive_on_second_input:
  "builder_inputs (ffmpeg_command ''v.mp4'' ''a.mp3'' (- 2) True False ''192k'') [] =
     Inr [(''v.mp4'', []), (''a.mp3'', [Lit ''-itsoffset'', StringOf 2]), (''v.mp4'', [])]
   \<and> builder_inputs (ffmpeg_command ''v.mp4'' ''a.mp3'' 2 True False ''192k'') [] =
     Inr [(''v.mp4'', []), (''a.mp3'', [Lit ''-itsoffset'', StringOf 2]), (''a.mp3'', [])]"
  by (simp add: ffmpeg_command_def)

section \<open>Cleanup of the staged files\<close>

text \<open>
  C1, evaluated for a request whose two downloads succeed and whose merge fails. The
  answer is status 500 with the message of ffmpeg; both downloaded files are still there
  afterwards, and no deletion was attempted.
\<close>

theorem merge_error_leaves_staged_files:
  "fst (merge_handler failing_ffmpeg_env example_request empty_world) =
     Response 500 (error_body ''ffmpeg exited with code 1'')
   \<and> fs (snd (merge_handler failing_ffmpeg_env example_request empty_world)) ''/tmp/u.mp3'' = Some [1, 2, 3]
   \<and> fs (snd (merge_handler failing_ffmpeg_env example_request empty_world)) ''/tmp/uu.mp4'' = Some [1, 2, 3]
   \<and> \<not> list_ex is_unlink (trace (snd (merge_handler failing_ffmpeg_env example_request empty_world)))"
  by (simp add: merge_handler_def failing_ffmpeg_env_def example_env_def example_request_def
      empty_world_def downloadToTemp_def isDropboxSharedLink_def toDirectDownload_def example_URL_def
      example_toString_def tmpFile_def endsWith_def searchParams_has_def did_def save_def Let_def)

text \<open>No failure path deletes: an answer other than 200 comes with no deletion attempted
  by this invocation.\<close>

lemma failed_merge_attempts_no_deletion:
  assumes "fst (merge_handler env req w) = Response status b" "status \<noteq> 200"
  shows "\<not> list_ex is_unlink (new_events w (snd (merge_handler env req w)))"
proof -
  from handler_trace [of env req w] obtain pre run post cleanup where
    t: "trace (snd (merge_handler env req w)) = trace w @ pre @ run @ post @ cleanup"
    and h: "list_all is_http pre" "list_all is_http post"
    and r: "run = [] \<or> (\<exists>cmd outTmp. run = [Save cmd outTmp])"
    and c: "cleanup \<noteq> [] \<longrightarrow> (\<exists>b. fst (merge_handler env req w) = Response 200 b)"
    by blast
  from c assms have "cleanup = []" by auto
  moreover have "\<not> list_ex is_unlink pre" "\<not> list_ex is_unlink post"
    using h by (auto simp: list_all_iff list_ex_iff dest: http_not_unlink)
  moreover have "\<not> list_ex is_unlink run" using r by auto
  ultimately show ?thesis using t by (auto simp: new_events_def list_ex_iff)
qed

text \<open>The same request with a merge that succeeds: the three staged files are deleted.\<close>

lemma successful_merge_deletes_staged_files:
  "fst (merge_handler example_env example_request empty_world) =
     Response 200 (JObj [(''ok'', JBool True), (''out_path'', JStr ''/out.mp4''),
                         (''uploaded'', JObj [(''session_id'', JStr ''s1''),
                                              (''link'', JStr ''https://example.org/f'')]),
                         (''elapsed_sec'', JNum 7)])
   \<and> fs (snd (merge_handler example_env example_request empty_world)) ''/tmp/u.mp3'' = None
   \<and> fs (snd (merge_handler example_env example_request empty_world)) ''/tmp/uu.mp4'' = None
   \<and> fs (snd (merge_handler example_env example_request empty_world)) ''/tmp/uuu.mp4'' = None
   \<and> filter is_unlink (trace (snd (merge_handler example_env example_request empty_world))) =
       [UnlinkSync ''/tmp/u.mp3'', UnlinkSync ''/tmp/uu.mp4'', UnlinkSync ''/tmp/uuu.mp4'']"
  by (simp add: merge_handler_def example_env_def example_request_def
      empty_world_def downloadToTemp_def isDropboxSharedLink_def toDirectDownload_def example_URL_def
      example_toString_def tmpFile_def endsWith_def searchParams_has_def did_def save_def Let_def
      ffmpeg_command_def dropboxUpload_def files_upload_def bearer_def unlinkSync_def round_sec_def)

section \<open>Shared links\<close>

lemma searchParams_set_lookup:
  "map_of (searchParams_set ps name v) name = Some v"
  by (induction ps name v rule: searchParams_set.induct) auto

lemma searchParams_set_once:
  "length (filter (\<lambda>p. fst p = name) (searchParams_set ps name v)) = 1"
  by (induction ps name v rule: searchParams_set.induct) (auto simp: filter_empty_conv)

lemma searchParams_set_others:
  "filter (\<lambda>p. fst p \<noteq> name) (searchParams_set ps name v) = filter (\<lambda>p. fst p \<noteq> name) ps"
  by (induction ps name v rule: searchParams_set.induct) auto

lemma searchParams_append_lookup:
  "\<not> searchParams_has ps name \<Longrightarrow> map_of (searchParams_append ps name v) name = Some v"
  by (induction ps) (auto simp: searchParams_has_def searchParams_append_def)

lemma searchParams_append_once:
  "\<not> searchParams_has ps name \<Longrightarrow>
   length (filter (\<lambda>p. fst p = name) (searchParams_append ps name v)) = 1"
  by (induction ps) (auto simp: searchParams_has_def searchParams_append_def)

lemma searchParams_append_others:
  "filter (\<lambda>p. fst p \<noteq> name) (searchParams_append ps name v) = filter (\<lambda>p. fst p \<noteq> name) ps"
  by (simp add: searchParams_append_def)

lemma toDirectDownload_forces_dl:
  assumes "new_URL env link = Some u"
  shows "\<exists>ps. toDirectDownload env link = toString env (u\<lparr>searchParams := ps\<rparr>)
           \<and> map_of ps ''dl'' = Some ''1''
           \<and> length (filter (\<lambda>p. fst p = ''dl'') ps) = 1
           \<and> filter (\<lambda>p. fst p \<noteq> ''dl'') ps = filter (\<lambda>p. fst p \<noteq> ''dl'') (searchParams u)"
proof (cases "searchParams_has (searchParams u) ''dl''")
  case True
  then have "toDirectDownload env link
             = toString env (u\<lparr>searchParams := searchParams_set (searchParams u) ''dl'' ''1''\<rparr>)"
    using assms by (simp add: toDirectDownload_def)
  then show ?thesis
    using searchParams_set_lookup searchParams_set_once searchParams_set_others by blast
next
  case False
  then have "toDirectDownload env link
             = toString env (u\<lparr>searchParams := searchParams_append (searchParams u) ''dl'' ''1''\<rparr>)"
    using assms by (simp add: toDirectDownload_def)
  then show ?thesis
    using searchParams_append_lookup [OF False] searchParams_append_once [OF False]
      searchParams_append_others by blast
qed

lemma downloadToTemp_given:
  assumes "link \<noteq> []"
  shows "trace (snd (downloadToTemp env (Some link) dropboxPath ext w)) =
           trace w @ [AxiosGet (if isDropboxSharedLink env link then toDirectDownload env link else link)]"
  using assms
  by (simp add: downloadToTemp_def tmpFile_def did_def Let_def split: sum.splits option.splits prod.splits)

lemma downloadToTemp_resolved:
  assumes "\<not> truthy given" "p \<noteq> []" "truthy (DROPBOX_TOKEN env)"
      and "axios_post env (trace w)
             (AxiosPost ''https://api.dropboxapi.com/2/files/get_temporary_link'' (bearer env) None
                (Json (JObj [(''path'', JStr p)]))) = Inr data"
      and "str_field ''link'' data = Some link" "link \<noteq> []"
  shows "trace (snd (downloadToTemp env given (Some p) ext w)) =
           trace w @ [AxiosPost ''https://api.dropboxapi.com/2/files/get_temporary_link'' (bearer env) None
                        (Json (JObj [(''path'', JStr p)])),
                      AxiosGet (if isDropboxSharedLink env link then toDirectDownload env link else link)]"
  using assms
  by (simp add: downloadToTemp_def dropboxTemporaryLinkByPath_def tmpFile_def did_def Let_def
           split: sum.splits option.splits prod.splits)

text \<open>
  C9. The address \<open>downloadToTemp\<close> fetches, for a given URL or for the link a Dropbox
  path resolves to: when the host name ends in \<open>dropbox.com\<close> or \<open>db.tt\<close> it is the
  address with the query parameter \<open>dl\<close> present once with value 1 and the other
  parameters as they were; when the address does not parse or is on another host it is
  the address itself.
\<close>

theorem shared_link_forced_to_direct_download:
  assumes "link \<noteq> []"
  shows "\<exists>fetched.
           trace (snd (downloadToTemp env (Some link) dropboxPath ext w)) = trace w @ [AxiosGet fetched]
         \<and> (\<forall>given p data.
               \<not> truthy given \<and> p \<noteq> [] \<and> truthy (DROPBOX_TOKEN env)
               \<and> axios_post env (trace w)
                    (AxiosPost ''https://api.dropboxapi.com/2/files/get_temporary_link'' (bearer env) None
                       (Json (JObj [(''path'', JStr p)]))) = Inr data
               \<and> str_field ''link'' data = Some link \<longrightarrow>
               trace (snd (downloadToTemp env given (Some p) ext w)) =
                 trace w @ [AxiosPost ''https://api.dropboxapi.com/2/files/get_temporary_link'' (bearer env)
                              None (Json (JObj [(''path'', JStr p)])),
                            AxiosGet fetched])
         \<and> (\<forall>u. new_URL env link = Some u
                 \<and> (endsWith (hostname u) ''dropbox.com'' \<or> endsWith (hostname u) ''db.tt'') \<longrightarrow>
                (\<exists>ps. fetched = toString env (u\<lparr>searchParams := ps\<rparr>)
                    \<and> map_of ps ''dl'' = Some ''1''
                    \<and> length (filter (\<lambda>p. fst p = ''dl'') ps) = 1
                    \<and> filter (\<lambda>p. fst p \<noteq> ''dl'') ps = filter (\<lambda>p. fst p \<noteq> ''dl'') (searchParams u)))
         \<and> ((\<forall>u. new_URL env link = Some u \<longrightarrow>
                  \<not> endsWith (hostname u) ''dropbox.com'' \<and> \<not> endsWith (hostname u) ''db.tt'') \<longrightarrow>
              fetched = link)"
proof -
  let ?fetched = "if isDropboxSharedLink env link then toDirectDownload env link else link"
  have a: "trace (snd (downloadToTemp env (Some link) dropboxPath ext w)) = trace w @ [AxiosGet ?fetched]"
    using assms by (rule downloadToTemp_given)
  have r: "trace (snd (downloadToTemp env given (Some p) ext w)) =
                 trace w @ [AxiosPost ''https://api.dropboxapi.com/2/files/get_temporary_link'' (bearer env)
                              None (Json (JObj [(''path'', JStr p)])),
                            AxiosGet ?fetched]"
    if "\<not> truthy given \<and> p \<noteq> [] \<and> truthy (DROPBOX_TOKEN env)
               \<and> axios_post env (trace w)
                    (AxiosPost ''https://api.dropboxapi.com/2/files/get_temporary_link'' (bearer env) None
                       (Json (JObj [(''path'', JStr p)]))) = Inr data
               \<and> str_field ''link'' data = Some link" for given p data
    using downloadToTemp_resolved [where given = given and p = p and data = data and link = link]
      that assms by blast
  have b: "\<exists>ps. ?fetched = toString env (u\<lparr>searchParams := ps\<rparr>)
                    \<and> map_of ps ''dl'' = Some ''1''
                    \<and> length (filter (\<lambda>p. fst p = ''dl'') ps) = 1
                    \<and> filter (\<lambda>p. fst p \<noteq> ''dl'') ps = filter (\<lambda>p. fst p \<noteq> ''dl'') (searchParams u)"
    if "new_URL env link = Some u
                 \<and> (endsWith (hostname u) ''dropbox.com'' \<or> endsWith (hostname u) ''db.tt'')" for u
  proof -
    have "isDropboxSharedLink env link" using that by (simp add: isDropboxSharedLink_def)
    then show ?thesis using toDirectDownload_forces_dl [of env link u] that by simp
  qed
  have c: "?fetched = link"
    if "\<forall>u. new_URL env link = Some u \<longrightarrow>
                  \<not> endsWith (hostname u) ''dropbox.com'' \<and> \<not> endsWith (hostname u) ''db.tt''"
  proof -
    have "\<not> isDropboxSharedLink env link"
      using that by (auto simp: isDropboxSharedLink_def split: option.splits)
    then show ?thesis by simp
  qed
  show ?thesis
    apply (rule exI [of _ ?fetched])
    apply (intro conjI allI impI)
    subgoal by (rule a)
    subgoal for given p data by (rule r)
    subgoal for u by (rule b)
    subgoal by (rule c)
    done
qed

lemma example_URL_voice:
  "new_URL example_env ''https://www.dropbox.com/s/abc/voice.mp3?dl=0'' =
     Some \<lparr>hostname = ''www.dropbox.com'', searchParams = [(''dl'', ''0'')],
           other = ''https://www.dropbox.com/s/abc/voice.mp3''\<rparr>"
  by (simp add: example_env_def example_URL_def)

lemma example_URL_dbtt:
  "new_URL example_env ''https://db.tt/clip'' =
     Some \<lparr>hostname = ''db.tt'', searchParams = [], other = ''https://db.tt/clip''\<rparr>"
  by (simp add: example_env_def example_URL_def)

lemma example_URL_elsewhere:
  "new_URL example_env ''https://example.org/clip.mp4?dl=0'' =
     Some \<lparr>hostname = ''example.org'', searchParams = [(''dl'', ''0'')],
           other = ''https://example.org/clip.mp4''\<rparr>"
  by (simp add: example_env_def example_URL_def)

theorem shared_link_forced_to_direct_download_witness:
  "(''https://www.dropbox.com/s/abc/voice.mp3?dl=0'' \<noteq> []
    \<and> new_URL example_env ''https://www.dropbox.com/s/abc/voice.mp3?dl=0'' =
        Some \<lparr>hostname = ''www.dropbox.com'', searchParams = [(''dl'', ''0'')],
              other = ''https://www.dropbox.com/s/abc/voice.mp3''\<rparr>
    \<and> endsWith ''www.dropbox.com'' ''dropbox.com''
    \<and> (\<exists>fetched ps.
          trace (snd (downloadToTemp example_env (Some ''https://www.dropbox.com/s/abc/voice.mp3?dl=0'')
                        None ''.mp3'' empty_world)) = trace empty_world @ [AxiosGet fetched]
        \<and> fetched = toString example_env
                      \<lparr>hostname = ''www.dropbox.com'', searchParams = ps,
                       other = ''https://www.dropbox.com/s/abc/voice.mp3''\<rparr>
        \<and> map_of ps ''dl'' = Some ''1''
        \<and> length (filter (\<lambda>p. fst p = ''dl'') ps) = 1))
   \<and> (''https://db.tt/clip'' \<noteq> []
    \<and> new_URL example_env ''https://db.tt/clip'' =
        Some \<lparr>hostname = ''db.tt'', searchParams = [], other = ''https://db.tt/clip''\<rparr>
    \<and> endsWith ''db.tt'' ''db.tt''
    \<and> (\<exists>fetched ps.
          trace (snd (downloadToTemp example_env (Some ''https://db.tt/clip'') None ''.mp4'' empty_world))
            = trace empty_world @ [AxiosGet fetched]
        \<and> fetched = toString example_env
                      \<lparr>hostname = ''db.tt'', searchParams = ps, other = ''https://db.tt/clip''\<rparr>
        \<and> map_of ps ''dl'' = Some ''1''))
   \<and> (''https://example.org/clip.mp4?dl=0'' \<noteq> []
    \<and> new_URL example_env ''https://example.org/clip.mp4?dl=0'' =
        Some \<lparr>hostname = ''example.org'', searchParams = [(''dl'', ''0'')],
              other = ''https://example.org/clip.mp4''\<rparr>
    \<and> \<not> endsWith ''example.org'' ''dropbox.com'' \<and> \<not> endsWith ''example.org'' ''db.tt''
    \<and> trace (snd (downloadToTemp example_env (Some ''https://example.org/clip.mp4?dl=0'') None ''.mp4''
                     empty_world))
        = trace empty_world @ [AxiosGet ''https://example.org/clip.mp4?dl=0''])
   \<and> (''https://example.org/f'' \<noteq> []
    \<and> \<not> truthy None \<and> ''/in.mp3'' \<noteq> [] \<and> truthy (DROPBOX_TOKEN example_env)
    \<and> axios_post example_env (trace empty_world)
         (AxiosPost ''https://api.dropboxapi.com/2/files/get_temporary_link'' (bearer example_env) None
            (Json (JObj [(''path'', JStr ''/in.mp3'')])))
        = Inr (JObj [(''session_id'', JStr ''s1''), (''link'', JStr ''https://example.org/f'')])
    \<and> str_field ''link'' (JObj [(''session_id'', JStr ''s1''), (''link'', JStr ''https://example.org/f'')])
        = Some ''https://example.org/f''
    \<and> new_URL example_env ''https://example.org/f'' = None
    \<and> trace (snd (downloadToTemp example_env None (Some ''/in.mp3'') ''.mp3'' empty_world))
        = trace empty_world
          @ [AxiosPost ''https://api.dropboxapi.com/2/files/get_temporary_link'' (bearer example_env) None
               (Json (JObj [(''path'', JStr ''/in.mp3'')])),
             AxiosGet ''https://example.org/f''])"
proof -
  have e1: "endsWith ''www.dropbox.com'' ''dropbox.com''" by (simp add: endsWith_def)
  have e2: "endsWith ''db.tt'' ''db.tt''" by (simp add: endsWith_def)
  have e3: "\<not> endsWith ''example.org'' ''dropbox.com'' \<and> \<not> endsWith ''example.org'' ''db.tt''"
    by (simp add: endsWith_def)
  have n4: "new_URL example_env ''https://example.org/f'' = None"
    by (simp add: example_env_def example_URL_def)
  have t: "truthy (DROPBOX_TOKEN example_env)" by (simp add: example_env_def)
  have p: "axios_post example_env (trace empty_world)
         (AxiosPost ''https://api.dropboxapi.com/2/files/get_temporary_link'' (bearer example_env) None
            (Json (JObj [(''path'', JStr ''/in.mp3'')])))
        = Inr (JObj [(''session_id'', JStr ''s1''), (''link'', JStr ''https://example.org/f'')])"
    by (simp add: example_env_def)
  have s: "str_field ''link'' (JObj [(''session_id'', JStr ''s1''), (''link'', JStr ''https://example.org/f'')])
        = Some ''https://example.org/f''"
    by simp
  have w1: "\<exists>fetched ps.
          trace (snd (downloadToTemp example_env (Some ''https://www.dropbox.com/s/abc/voice.mp3?dl=0'')
                        None ''.mp3'' empty_world)) = trace empty_world @ [AxiosGet fetched]
        \<and> fetched = toString example_env
                      \<lparr>hostname = ''www.dropbox.com'', searchParams = ps,
                       other = ''https://www.dropbox.com/s/abc/voice.mp3''\<rparr>
        \<and> map_of ps ''dl'' = Some ''1''
        \<and> length (filter (\<lambda>p. fst p = ''dl'') ps) = 1"
    using shared_link_forced_to_direct_download
            [of "''https://www.dropbox.com/s/abc/voice.mp3?dl=0''" example_env None "''.mp3''" empty_world]
          example_URL_voice e1
    by fastforce
  have w2: "\<exists>fetched ps.
          trace (snd (downloadToTemp example_env (Some ''https://db.tt/clip'') None ''.mp4'' empty_world))
            = trace empty_world @ [AxiosGet fetched]
        \<and> fetched = toString example_env
                      \<lparr>hostname = ''db.tt'', searchParams = ps, other = ''https://db.tt/clip''\<rparr>
        \<and> map_of ps ''dl'' = Some ''1''"
    using shared_link_forced_to_direct_download
            [of "''https://db.tt/clip''" example_env None "''.mp4''" empty_world]
          example_URL_dbtt e2
    by fastforce
  have w3: "trace (snd (downloadToTemp example_env (Some ''https://example.org/clip.mp4?dl=0'') None ''.mp4''
                     empty_world))
        = trace empty_world @ [AxiosGet ''https://example.org/clip.mp4?dl=0'']"
    using shared_link_forced_to_direct_download
            [of "''https://example.org/clip.mp4?dl=0''" example_env None "''.mp4''" empty_world]
          example_URL_elsewhere e3
    by fastforce
  have w4: "trace (snd (downloadToTemp example_env None (Some ''/in.mp3'') ''.mp3'' empty_world))
        = trace empty_world
          @ [AxiosPost ''https://api.dropboxapi.com/2/files/get_temporary_link'' (bearer example_env) None
               (Json (JObj [(''path'', JStr ''/in.mp3'')])),
             AxiosGet ''https://example.org/f'']"
  proof -
    from shared_link_forced_to_direct_download
            [of "''https://example.org/f''" example_env None "''.mp3''" empty_world]
    obtain fetched where
      f1: "\<forall>given p data.
               \<not> truthy given \<and> p \<noteq> [] \<and> truthy (DROPBOX_TOKEN example_env)
               \<and> axios_post example_env (trace empty_world)
                    (AxiosPost ''https://api.dropboxapi.com/2/files/get_temporary_link'' (bearer example_env) None
                       (Json (JObj [(''path'', JStr p)]))) = Inr data
               \<and> str_field ''link'' data = Some ''https://example.org/f'' \<longrightarrow>
               trace (snd (downloadToTemp example_env given (Some p) ''.mp3'' empty_world)) =
                 trace empty_world @ [AxiosPost ''https://api.dropboxapi.com/2/files/get_temporary_link'' (bearer example_env)
                              None (Json (JObj [(''path'', JStr p)])),
                            AxiosGet fetched]"
      and f2: "(\<forall>u. new_URL example_env ''https://example.org/f'' = Some u \<longrightarrow>
                  \<not> endsWith (hostname u) ''dropbox.com'' \<and> \<not> endsWith (hostname u) ''db.tt'') \<longrightarrow>
              fetched = ''https://example.org/f''"
      by auto
    from f2 n4 have "fetched = ''https://example.org/f''" by simp
    moreover from f1 t p s have "trace (snd (downloadToTemp example_env None (Some ''/in.mp3'') ''.mp3'' empty_world)) =
                 trace empty_world @ [AxiosPost ''https://api.dropboxapi.com/2/files/get_temporary_link'' (bearer example_env)
                              None (Json (JObj [(''path'', JStr ''/in.mp3'')])),
                            AxiosGet fetched]"
      by (metis list.distinct(1) truthy.simps(1))
    ultimately show ?thesis by simp
  qed
  show ?thesis
    using e1 e2 e3 n4 t p s w1 w2 w3 w4 example_URL_voice example_URL_dbtt example_URL_elsewhere
    by simp
qed

end
